theory Spec2Isabelle
  imports Complex_Main
begin

section \<open>Kratos: the detection-and-triage pipeline of the dashboard scripts\<close>

text \<open>
  The repository is a series of Streamlit scripts; the newest ones
  (\<^verbatim>\<open>Kratos20_app.py\<close>, \<^verbatim>\<open>Kratos27_app.py\<close>, \<^verbatim>\<open>Kratos28_app.py\<close>) share one pipeline:
  check the required columns, parse the timestamps, normalise the two numeric
  columns, label the rows with an isolation forest, classify the flagged rows,
  geolocate their source address, and show the alerts of one hour of the timeline.
  Each script is a straight-line program that is run again at every interaction, so
  every stage is modelled as a function and the session state as a value that is
  passed in and returned.  Python integers are \<^typ>\<open>int\<close>; finite floating-point values
  are \<^typ>\<open>real\<close>, and where the code rounds an integer to a float or casts beyond 64 bits
  the result is the library's.
\<close>

subsection \<open>Severity classification\<close>

text \<open>
  The scripts return the strings \<^verbatim>\<open>"Low"\<close>, \<^verbatim>\<open>"Medium"\<close>, \<^verbatim>\<open>"High"\<close>; the three
  strings are the constructors of an enumeration here.
\<close>

datatype severity = Low | Medium | High

text \<open>
  \<^verbatim>\<open>classify_severity(r)\<close> (\<^verbatim>\<open>Kratos28_app.py\<close> 104-110, the same text in
  \<^verbatim>\<open>Kratos27\<close>, \<^verbatim>\<open>Kratos20\<close>, \<^verbatim>\<open>Kratos18\<close>, \<^verbatim>\<open>Kratos17\<close>, \<^verbatim>\<open>Kratos16\<close> and
  \<^verbatim>\<open>Kratos 7\<close>) reads two cells of the row.  The arguments are \<^verbatim>\<open>bytes_sent\<close> and
  \<^verbatim>\<open>failed_logins\<close>, in this order.
\<close>

definition classify_severity :: "int \<Rightarrow> int \<Rightarrow> severity" where
  "classify_severity bytes_sent failed_logins =
     (if failed_logins > 20 \<and> bytes_sent > 5000 then High
      else if failed_logins > 5 \<or> bytes_sent > 3000 then Medium
      else Low)"

text \<open>
  The order \<open>Low < Medium < High\<close> of the tiers, as a rank.
\<close>

fun severity_rank :: "severity \<Rightarrow> nat" where
  "severity_rank Low = 0"
| "severity_rank Medium = 1"
| "severity_rank High = 2"

text \<open>
  Two older scripts carry classifiers of their own, with other thresholds and an
  \<^verbatim>\<open>or\<close> in the first test: \<^verbatim>\<open>classify\<close> of \<^verbatim>\<open>Kratos 8\<close> (\<^verbatim>\<open>part_000\<close> 500-506, which
  returns upper-case names) and \<^verbatim>\<open>severity\<close> of \<^verbatim>\<open>Kratos5_app.py\<close> (51-56).
\<close>

definition classify :: "int \<Rightarrow> int \<Rightarrow> severity" where
  "classify bytes_sent failed_logins =
     (if failed_logins > 20 \<or> bytes_sent > 7000 then High
      else if failed_logins > 5 \<or> bytes_sent > 3000 then Medium
      else Low)"

subsection \<open>Batches and the library\<close>

text \<open>
  A data frame is its column labels and its rows; a row gives the cell under each
  label.  A cell of an uploaded file is an integer, a finite float, an infinite float, a
  text or missing (NaN).
\<close>

datatype cell = IntCell int | FloatCell real | InfCell | TextCell string | Missing

record frame =
  columns :: "string list"
  rows :: "(string \<rightharpoonup> cell) list"

definition cell_of :: "(string \<rightharpoonup> cell) \<Rightarrow> string \<Rightarrow> cell" where
  "cell_of r c = (case r c of None \<Rightarrow> Missing | Some v \<Rightarrow> v)"

text \<open>
  The exceptions that the modelled statements can raise, and the three ways a run of
  the script ends early: the two \<^verbatim>\<open>st.error(...); st.stop()\<close> exits and an exception
  that nothing catches.
\<close>

datatype exn =
  AttributeError | ConnectionError | Timeout | JSONDecodeError | TypeError | ValueError
  | IntCastingNaNError

datatype stop = SchemaError | UnparseableTimestampError | Uncaught exn

text \<open>
  The decoded answer of the lookup service: an object with its fields, or a number,
  boolean or null (on which the test \<^verbatim>\<open>"loc" in data\<close> raises).  Arrays and strings at the
  top level are left out.
\<close>

datatype jvalue = Text string | NotText

datatype json = Object "string \<rightharpoonup> jvalue" | Scalar

text \<open>
  What \<^verbatim>\<open>pd.to_numeric\<close> reads: an integer, a finite float or an infinity.
\<close>

datatype num = NInt int | NFloat real | NInf

text \<open>
  The library calls of the scripts are parameters of the model:
  \<^item> \<open>to_datetime\<close>: \<^verbatim>\<open>pd.to_datetime(..., errors="coerce")\<close> on one cell, in nanoseconds
    since the epoch; \<open>None\<close> is \<^verbatim>\<open>NaT\<close>;
  \<^item> \<open>sort_values\<close>: \<^verbatim>\<open>logs.sort_values("timestamp").reset_index(drop=True)\<close> on the rows
    with their parsed timestamps; pandas sorts with quicksort, so the order of rows with
    equal timestamps is the library's;
  \<^item> \<open>numeric_text\<close>: what \<^verbatim>\<open>pd.to_numeric(..., errors="coerce")\<close> reads from a text;
    \<open>None\<close> is NaN;
  \<^item> \<open>float64\<close>: the 64-bit float nearest to an integer that is not a float itself;
  \<^item> \<open>int64_overflow\<close>: what the cast to a 64-bit integer leaves for a float whose
    integer part does not fit (the cast is undefined there; \<^verbatim>\<open>-2^63\<close> on x86-64);
  \<^item> \<open>fit_predict\<close>: \<^verbatim>\<open>IsolationForest(contamination=0.05, random_state=42).fit_predict\<close>
    on the rows of \<^verbatim>\<open>(bytes_sent, failed_logins)\<close>: one label per row, \<open>-1\<close> for an
    outlier and \<open>1\<close> for an inlier, or an exception;
  \<^item> \<open>lookup\<close>: \<^verbatim>\<open>requests.get(url, timeout=5)\<close> followed by \<^verbatim>\<open>resp.json()\<close>: the decoded
    answer, or the exception either call raises;
  \<^item> \<open>float_of\<close>: Python's \<^verbatim>\<open>float\<close> on a text; \<open>None\<close> when it raises \<^verbatim>\<open>ValueError\<close>.
\<close>

record library =
  to_datetime :: "cell \<Rightarrow> int option"
  sort_values ::
    "(int option \<times> (string \<rightharpoonup> cell)) list \<Rightarrow> (int option \<times> (string \<rightharpoonup> cell)) list"
  numeric_text :: "string \<Rightarrow> num option"
  float64 :: "int \<Rightarrow> real"
  int64_overflow :: "real \<Rightarrow> int"
  fit_predict :: "(int \<times> int) list \<Rightarrow> exn + int list"
  lookup :: "string \<Rightarrow> exn + json"
  float_of :: "string \<Rightarrow> real option"

text \<open>The results of a loop that stops at the first exception.\<close>

fun collect :: "('e + 'a) list \<Rightarrow> 'e + 'a list" where
  "collect [] = Inr []"
| "collect (r # rs) =
     (case r of
        Inl x \<Rightarrow> Inl x
      | Inr v \<Rightarrow> (case collect rs of Inl x \<Rightarrow> Inl x | Inr vs \<Rightarrow> Inr (v # vs)))"

subsection \<open>Validation\<close>

text \<open>
  \<^verbatim>\<open>Kratos28_app.py\<close> 80-83.  The spec calls the two address columns \<^verbatim>\<open>source_id\<close> and
  \<^verbatim>\<open>dest_id\<close>; the scripts name them \<^verbatim>\<open>source_ip\<close> and \<^verbatim>\<open>dest_ip\<close>.
\<close>

definition required_cols :: "string list" where
  "required_cols = [''timestamp'', ''source_ip'', ''dest_ip'', ''bytes_sent'', ''failed_logins'']"

definition validate :: "frame \<Rightarrow> stop + frame" where
  "validate logs =
     (if set required_cols \<subseteq> set (columns logs) then Inr logs else Inl SchemaError)"

subsection \<open>Normalisation\<close>

text \<open>
  \<^verbatim>\<open>pd.to_numeric(col, errors="coerce").fillna(0).astype(int)\<close> (\<^verbatim>\<open>Kratos28_app.py\<close> 93-94)
  works on a whole column.  \<^verbatim>\<open>to_numeric\<close> reads a number from every cell, NaN where there
  is none.
\<close>

definition to_numeric :: "library \<Rightarrow> cell \<Rightarrow> num option" where
  "to_numeric lib c =
     (case c of
        IntCell i \<Rightarrow> Some (NInt i)
      | FloatCell x \<Rightarrow> Some (NFloat x)
      | InfCell \<Rightarrow> Some NInf
      | TextCell s \<Rightarrow> numeric_text lib s
      | Missing \<Rightarrow> None)"

text \<open>
  The column that results holds 64-bit integers when every cell gave an integer of that
  range.  Then \<^verbatim>\<open>fillna\<close> and \<^verbatim>\<open>astype(int)\<close> change nothing.  (A column with an integer
  beyond that range is taken as a float column here; pandas may hold it as unsigned
  integers, and the theorems say nothing about the value of such an integer.)
\<close>

definition int64 :: "int \<Rightarrow> bool" where
  "int64 i \<longleftrightarrow> - (2 ^ 63) \<le> i \<and> i < 2 ^ 63"

definition int64_column :: "num option list \<Rightarrow> bool" where
  "int64_column col = list_all (\<lambda>v. case v of Some (NInt i) \<Rightarrow> int64 i | _ \<Rightarrow> False) col"

text \<open>
  Otherwise the column holds 64-bit floats.  An integer of magnitude at most \<^verbatim>\<open>2^53\<close> is
  such a float; a larger one is rounded.
\<close>

datatype float64v = Fin real | Infinite | NaN

definition to_float64 :: "library \<Rightarrow> num option \<Rightarrow> float64v" where
  "to_float64 lib v =
     (case v of
        None \<Rightarrow> NaN
      | Some (NInt i) \<Rightarrow> Fin (if \<bar>i\<bar> \<le> 2 ^ 53 then of_int i else float64 lib i)
      | Some (NFloat x) \<Rightarrow> Fin x
      | Some NInf \<Rightarrow> Infinite)"

definition fillna :: "real \<Rightarrow> float64v \<Rightarrow> float64v" where
  "fillna d v = (case v of NaN \<Rightarrow> Fin d | _ \<Rightarrow> v)"

text \<open>
  \<^verbatim>\<open>astype(int)\<close> on a float: pandas raises \<^verbatim>\<open>IntCastingNaNError\<close> when a value is not
  finite; the cast drops the fractional part (it rounds toward zero) and overflows when
  the integer part does not fit in 64 bits.
\<close>

definition astype_int :: "library \<Rightarrow> float64v \<Rightarrow> exn + int" where
  "astype_int lib v =
     (case v of
        Fin x \<Rightarrow>
          (let t = (if 0 \<le> x then \<lfloor>x\<rfloor> else \<lceil>x\<rceil>)
           in Inr (if int64 t then t else int64_overflow lib x))
      | _ \<Rightarrow> Inl IntCastingNaNError)"

definition normalize_column :: "library \<Rightarrow> cell list \<Rightarrow> exn + int list" where
  "normalize_column lib cells =
     (let col = map (to_numeric lib) cells
      in if int64_column col
         then Inr (List.map_filter (\<lambda>v. case v of Some (NInt i) \<Rightarrow> Some i | _ \<Rightarrow> None) col)
         else collect (map (\<lambda>v. astype_int lib (fillna 0 (to_float64 lib v))) col))"

record event =
  timestamp :: "int option"
  source_ip :: cell
  dest_ip :: cell
  bytes_sent :: int
  failed_logins :: int

text \<open>
  Line 86: the parsed timestamp of every row, beside the row.
\<close>

definition parse_timestamps ::
  "library \<Rightarrow> frame \<Rightarrow> (int option \<times> (string \<rightharpoonup> cell)) list" where
  "parse_timestamps lib logs =
     map (\<lambda>r. (to_datetime lib (cell_of r ''timestamp''), r)) (rows logs)"

text \<open>
  One row of \<^verbatim>\<open>logs\<close> after line 94: its timestamp, its addresses and its two numbers.
  Columns other than the five are never read again.
\<close>

definition make_event :: "(int option \<times> (string \<rightharpoonup> cell)) \<times> int \<times> int \<Rightarrow> event" where
  "make_event p =
     \<lparr>timestamp = fst (fst p),
      source_ip = cell_of (snd (fst p)) ''source_ip'',
      dest_ip = cell_of (snd (fst p)) ''dest_ip'',
      bytes_sent = fst (snd p),
      failed_logins = snd (snd p)\<rparr>"

text \<open>
  Lines 86-94: the script stops when no timestamp can be read (also when there is no
  row: \<^verbatim>\<open>isna().all()\<close> of an empty column is true); it sorts the rows; it normalises the
  column \<^verbatim>\<open>bytes_sent\<close> and then the column \<^verbatim>\<open>failed_logins\<close>, and an exception of either
  ends the run.
\<close>

definition normalize :: "library \<Rightarrow> frame \<Rightarrow> stop + event list" where
  "normalize lib logs =
     (let stamped = parse_timestamps lib logs
      in if list_all (\<lambda>p. fst p = None) stamped then Inl UnparseableTimestampError
         else
           (let sorted = sort_values lib stamped
            in (case normalize_column lib (map (\<lambda>p. cell_of (snd p) ''bytes_sent'') sorted) of
                  Inl x \<Rightarrow> Inl (Uncaught x)
                | Inr bs \<Rightarrow>
                    (case normalize_column lib
                            (map (\<lambda>p. cell_of (snd p) ''failed_logins'') sorted) of
                       Inl x \<Rightarrow> Inl (Uncaught x)
                     | Inr fl \<Rightarrow> Inr (map make_event (zip sorted (zip bs fl)))))))"

subsection \<open>Anomaly detection and alerts\<close>

text \<open>
  \<^verbatim>\<open>Kratos28_app.py\<close> 99-101: the model labels the rows, the label becomes the column
  \<^verbatim>\<open>score\<close>, and the alerts are the rows labelled \<open>-1\<close>.  No line looks at the number of
  rows before the call.
\<close>

definition detect_anomalies :: "library \<Rightarrow> event list \<Rightarrow> exn + (event \<times> int) list" where
  "detect_anomalies lib logs =
     (case fit_predict lib (map (\<lambda>e. (bytes_sent e, failed_logins e)) logs) of
        Inl x \<Rightarrow> Inl x
      | Inr labels \<Rightarrow> Inr (filter (\<lambda>(e, l). l = - 1) (zip logs labels)))"

record alert = event +
  score :: int
  severity :: severity
  lat :: real
  lon :: real

subsection \<open>Geolocation\<close>

text \<open>
  \<^verbatim>\<open>Kratos27_app.py\<close> 118-153.  \<^verbatim>\<open>Kratos28_app.py\<close> has the same function without the
  table and its test.  The token is the placeholder of \<^verbatim>\<open>Kratos28_app.py\<close> (line 118);
  the literal token of \<^verbatim>\<open>Kratos27_app.py\<close> is not repeated here.
\<close>

definition IPINFO_TOKEN :: string where
  "IPINFO_TOKEN = ''YOUR_IPINFO_TOKEN_HERE''"

definition STATIC_IP_MAP :: "(string \<times> real \<times> real) list" where
  "STATIC_IP_MAP =
     [(''8.8.8.8'', (37.3861, - 122.0839)),
      (''1.1.1.1'', (- 33.8688, 151.2093)),
      (''77.88.55.77'', (55.7512, 37.6184)),
      (''185.199.110.153'', (52.52, 13.405)),
      (''41.90.5.2'', (- 1.2921, 36.8219)),
      (''200.89.75.5'', (- 34.6037, - 58.3816)),
      (''103.21.244.0'', (28.6139, 77.209)),
      (''196.25.1.200'', (- 26.2041, 28.0473))]"

definition ipinfo_url :: "string \<Rightarrow> string" where
  "ipinfo_url ip = ''https://ipinfo.io/'' @ ip @ ''?token='' @ IPINFO_TOKEN"

definition startswith :: "string \<Rightarrow> string list \<Rightarrow> bool" where
  "startswith s prefixes = list_ex (\<lambda>p. take (length p) s = p) prefixes"

text \<open>\<^verbatim>\<open>s.split(",")\<close>: the pieces between the commas, at least one.\<close>

fun split_comma :: "string \<Rightarrow> string list" where
  "split_comma [] = [[]]"
| "split_comma (c # cs) =
     (if c = CHR '','' then [] # split_comma cs
      else (case split_comma cs of [] \<Rightarrow> [[c]] | p # ps \<Rightarrow> (c # p) # ps))"

text \<open>
  \<^verbatim>\<open>lat, lon = map(float, data["loc"].split(","))\<close>: the value must be a text of
  exactly two pieces that \<^verbatim>\<open>float\<close> reads.
\<close>

definition parse_loc :: "library \<Rightarrow> jvalue \<Rightarrow> exn + real \<times> real" where
  "parse_loc lib v =
     (case v of
        NotText \<Rightarrow> Inl AttributeError
      | Text s \<Rightarrow>
          (case split_comma s of
             [a, b] \<Rightarrow>
               (case float_of lib a of
                  None \<Rightarrow> Inl ValueError
                | Some x \<Rightarrow>
                    (case float_of lib b of
                       None \<Rightarrow> Inl ValueError
                     | Some y \<Rightarrow> Inr (x, y)))
           | _ \<Rightarrow> Inl ValueError))"

text \<open>
  The body of the \<^verbatim>\<open>try\<close>: the addresses that were requested from the service, and the
  value returned or the exception raised.  A source address that is not a text has no
  \<^verbatim>\<open>startswith\<close>.
\<close>

definition geolocate_try :: "library \<Rightarrow> cell \<Rightarrow> string list \<times> (exn + real \<times> real)" where
  "geolocate_try lib ip =
     (case ip of
        TextCell s \<Rightarrow>
          if startswith s [''10.'', ''192.168.'', ''172.16.''] then ([], Inr (0, 0))
          else (case map_of STATIC_IP_MAP s of
                  Some coord \<Rightarrow> ([], Inr coord)
                | None \<Rightarrow>
                    (let url = ipinfo_url s
                     in (case lookup lib url of
                           Inl x \<Rightarrow> ([url], Inl x)
                         | Inr Scalar \<Rightarrow> ([url], Inl TypeError)
                         | Inr (Object data) \<Rightarrow>
                             (case data ''loc'' of
                                Some v \<Rightarrow> ([url], parse_loc lib v)
                              | None \<Rightarrow> ([url], Inr (0, 0))))))
      | _ \<Rightarrow> ([], Inl AttributeError))"

text \<open>
  \<^verbatim>\<open>real_geolocate\<close>: the \<^verbatim>\<open>try\<close> with its \<^verbatim>\<open>except Exception: return (0, 0)\<close>.  The result
  is \<open>Inr\<close> of the pair returned; \<open>Inl\<close> would be an exception that leaves the function.
\<close>

definition real_geolocate :: "library \<Rightarrow> cell \<Rightarrow> exn + real \<times> real" where
  "real_geolocate lib ip =
     (case snd (geolocate_try lib ip) of
        Inl x \<Rightarrow> Inr (0, 0)
      | Inr coord \<Rightarrow> Inr coord)"


text \<open>
  \<^verbatim>\<open>simple_geolocate\<close> of \<^verbatim>\<open>Kratos20_app.py\<close> (110-119) is a table lookup with the
  default \<open>(0, 0)\<close>; its table lists two private addresses with demonstration
  coordinates.
\<close>

definition geo_map_demo :: "(cell \<times> real \<times> real) list" where
  "geo_map_demo =
     [(TextCell ''10.0.0.1'', (38.0, - 97.0)),
      (TextCell ''192.168.1.5'', (51.5, - 0.1)),
      (TextCell ''203.0.113.9'', (35.7, 139.7)),
      (TextCell ''198.51.100.77'', (55.7, 37.6)),
      (TextCell ''8.8.8.8'', (37.386, - 122.0838))]"

definition simple_geolocate :: "cell \<Rightarrow> real \<times> real" where
  "simple_geolocate ip = (case map_of geo_map_demo ip of None \<Rightarrow> (0, 0) | Some coord \<Rightarrow> coord)"

subsection \<open>The pipeline\<close>

text \<open>
  One alert: the row and its label (line 101), its severity (line 112) and its
  coordinates (\<^verbatim>\<open>Kratos27_app.py\<close> 155).  An exception that left \<^verbatim>\<open>real_geolocate\<close>
  would end the run.
\<close>

definition make_alert :: "library \<Rightarrow> event \<times> int \<Rightarrow> exn + alert" where
  "make_alert lib p =
     (let e = fst p
      in (case real_geolocate lib (source_ip e) of
            Inl x \<Rightarrow> Inl x
          | Inr coord \<Rightarrow>
              Inr \<lparr>timestamp = timestamp e, source_ip = source_ip e, dest_ip = dest_ip e,
                   bytes_sent = bytes_sent e, failed_logins = failed_logins e,
                   score = snd p,
                   severity = classify_severity (bytes_sent e) (failed_logins e),
                   lat = fst coord, lon = snd coord\<rparr>))"

text \<open>
  Lines 80-155 of \<^verbatim>\<open>Kratos27_app.py\<close> in their order (\<^verbatim>\<open>Kratos28_app.py\<close> 80-135 are the
  same).  When no row is flagged, the run ends with \<^verbatim>\<open>ValueError\<close>: at the latest, the
  unpacking \<^verbatim>\<open>alerts["lat"], alerts["lon"] = zip(*...)\<close> of line 155 has nothing to
  unpack.
\<close>

definition pipeline :: "library \<Rightarrow> frame \<Rightarrow> stop + alert list" where
  "pipeline lib raw =
     (case validate raw of
        Inl s \<Rightarrow> Inl s
      | Inr checked \<Rightarrow>
          (case normalize lib checked of
             Inl s \<Rightarrow> Inl s
           | Inr logs \<Rightarrow>
               (case detect_anomalies lib logs of
                  Inl x \<Rightarrow> Inl (Uncaught x)
                | Inr flagged \<Rightarrow>
                    if flagged = [] then Inl (Uncaught ValueError)
                    else (case collect (map (make_alert lib) flagged) of
                            Inl x \<Rightarrow> Inl (Uncaught x)
                          | Inr alerts \<Rightarrow> Inr alerts))))"




subsection \<open>The timeline\<close>

text \<open>
  Timestamps count nanoseconds, as pandas does.  \<^verbatim>\<open>Kratos28_app.py\<close> 170-172: the first
  hour boundary at or before the earliest timestamp, the first at or after the latest,
  and the number of hours between them.
\<close>

definition hour :: int where
  "hour = 3600000000000"

definition floor_hour :: "int \<Rightarrow> int" where
  "floor_hour t = t - t mod hour"

definition ceil_hour :: "int \<Rightarrow> int" where
  "ceil_hour t = t + (- t) mod hour"

definition timeline :: "event list \<Rightarrow> (int \<times> int) option" where
  "timeline logs =
     (case List.map_filter timestamp logs of
        [] \<Rightarrow> None
      | t # ts \<Rightarrow> Some (floor_hour (fold min ts t), ceil_hour (fold max ts t)))"

definition total_hours :: "int \<Rightarrow> int \<Rightarrow> int" where
  "total_hours t_min t_max = (t_max - t_min) div hour"

text \<open>
  Modelled from the spec: the slider widget of Streamlit, which is not part of the
  repository.  It is called with its two bounds and yields a value between them; a
  position requested beyond a bound is the bound (the spec's \<^verbatim>\<open>scrub\<close> "moves directly to
  a clamped position").
\<close>

definition slider :: "int \<Rightarrow> int \<Rightarrow> int \<Rightarrow> int" where
  "slider min_value max_value requested = max min_value (min max_value requested)"

text \<open>
  The position \<^verbatim>\<open>st.session_state.hour_pos\<close> of the hour-by-hour scripts.
  \<^verbatim>\<open>Kratos27_app.py\<close> 173-174, with auto-play switched on.  (Whether a run with auto-play
  gets as far as these lines depends on the Streamlit calls above them, \<^verbatim>\<open>st.rerun()\<close> at
  line 59, which are not modelled.)
\<close>

definition advance :: "int \<Rightarrow> int \<Rightarrow> int" where
  "advance total_ticks hour_pos = (if hour_pos < total_ticks then hour_pos + 1 else hour_pos)"

text \<open>\<^verbatim>\<open>Kratos27_app.py\<close> 176-178: the slider and the copy of its value.\<close>

definition scrub :: "int \<Rightarrow> int \<Rightarrow> int \<Rightarrow> int" where
  "scrub total_ticks hour_pos requested =
     (let hour_slider = slider 0 (max total_ticks 0) requested
      in if hour_slider \<noteq> hour_pos then hour_slider else hour_pos)"

text \<open>\<^verbatim>\<open>Kratos20_app.py\<close> 160-161 (and \<^verbatim>\<open>Kratos16_app.py\<close> 216-217): the reset button.\<close>

definition reset :: "int \<Rightarrow> int" where
  "reset hour_pos = 0"

datatype navigation = Advance | Scrub int | Reset

fun navigate :: "int \<Rightarrow> int \<Rightarrow> navigation \<Rightarrow> int" where
  "navigate total_ticks pos Advance = advance total_ticks pos"
| "navigate total_ticks pos (Scrub requested) = scrub total_ticks pos requested"
| "navigate total_ticks pos Reset = reset pos"

text \<open>The session starts at position 0 (lines 170-171).\<close>

definition playback :: "int \<Rightarrow> navigation list \<Rightarrow> int" where
  "playback total_ticks ops = foldl (navigate total_ticks) 0 ops"

text \<open>
  The position \<^verbatim>\<open>st.session_state.play_pos\<close> of \<^verbatim>\<open>Kratos16_app.py\<close> (194-217) counts
  minutes and advances by the chosen step; its slider runs from 0 to \<^verbatim>\<open>total_minutes\<close>.
\<close>

definition play_advance :: "int \<Rightarrow> int \<Rightarrow> int \<Rightarrow> int" where
  "play_advance play_step_min total_minutes play_pos =
     min (play_pos + play_step_min) total_minutes"

definition play_scrub :: "int \<Rightarrow> int \<Rightarrow> int \<Rightarrow> int" where
  "play_scrub total_minutes play_pos requested =
     (let slider_pos = slider 0 total_minutes requested
      in if slider_pos \<noteq> play_pos then slider_pos else play_pos)"

fun play_navigate :: "int \<Rightarrow> int \<Rightarrow> int \<Rightarrow> navigation \<Rightarrow> int" where
  "play_navigate step total_ticks pos Advance = play_advance step total_ticks pos"
| "play_navigate step total_ticks pos (Scrub requested) = play_scrub total_ticks pos requested"
| "play_navigate step total_ticks pos Reset = reset pos"

definition play_playback :: "int \<Rightarrow> int \<Rightarrow> navigation list \<Rightarrow> int" where
  "play_playback step total_ticks ops = foldl (play_navigate step total_ticks) 0 ops"

text \<open>
  \<^verbatim>\<open>Kratos28_app.py\<close> 180-182: the window of the current hour and the alerts in it.  A
  comparison with \<^verbatim>\<open>NaT\<close> is false.
\<close>

definition current_start :: "int \<Rightarrow> int \<Rightarrow> int" where
  "current_start t_min hour_pos = t_min + hour_pos * hour"

definition current_end :: "int \<Rightarrow> int \<Rightarrow> int" where
  "current_end t_min hour_pos = current_start t_min hour_pos + hour"

definition visible_alerts :: "int \<Rightarrow> int \<Rightarrow> alert list \<Rightarrow> alert list" where
  "visible_alerts t_min hour_pos alerts =
     filter (\<lambda>a. case timestamp a of
                   None \<Rightarrow> False
                 | Some t \<Rightarrow> t \<ge> current_start t_min hour_pos \<and> t < current_end t_min hour_pos)
       alerts"

text \<open>
  \<^verbatim>\<open>Kratos16_app.py\<close> 212 and 223 show something else: every alert up to the cutoff, the
  cutoff included.
\<close>

definition filtered_alerts :: "int \<Rightarrow> alert list \<Rightarrow> alert list" where
  "filtered_alerts current_cutoff alerts =
     filter (\<lambda>a. case timestamp a of None \<Rightarrow> False | Some t \<Rightarrow> t \<le> current_cutoff) alerts"

subsection \<open>The map\<close>

text \<open>
  \<^verbatim>\<open>Kratos28_app.py\<close> 209-219: the locations of the circle markers.
\<close>

definition markers :: "alert list \<Rightarrow> (real \<times> real) list" where
  "markers visible =
     map (\<lambda>r. (lat r, lon r)) (filter (\<lambda>r. lat r \<noteq> 0 \<and> lon r \<noteq> 0) visible)"

text \<open>
  \<^verbatim>\<open>Kratos28_app.py\<close> 220-223: the points handed to \<^verbatim>\<open>HeatMap\<close>; the empty list when no
  layer is added.  \<^verbatim>\<open>dropna\<close> removes the rows with a NaN coordinate; the coordinates
  are numbers here, so it removes none.
\<close>

definition heat_points :: "alert list \<Rightarrow> (real \<times> real) list" where
  "heat_points visible =
     (if visible \<noteq> [] then map (\<lambda>r. (lat r, lon r)) visible else [])"

text \<open>
  \<^verbatim>\<open>Kratos27_app.py\<close> 224-225, under the comment \<^verbatim>\<open># Heatmap (only valid coords)\<close>.
\<close>

definition heat_points_valid :: "alert list \<Rightarrow> (real \<times> real) list" where
  "heat_points_valid visible =
     map (\<lambda>r. (lat r, lon r)) (filter (\<lambda>r. lat r \<noteq> 0 \<and> lon r \<noteq> 0) visible)"

subsection \<open>Example data\<close>

text \<open>
  A stand-in for the library, for the examples: a timestamp is read from an integer
  cell only, the sort keeps rows with equal timestamps in their order, no text is a
  number, integers are floats as they are, an overflowing cast gives \<^verbatim>\<open>-2^63\<close>, the model
  flags the rows of at least 5000 bytes, and the lookup service cannot be reached.
\<close>

definition example_sort ::
  "(int option \<times> (string \<rightharpoonup> cell)) list \<Rightarrow> (int option \<times> (string \<rightharpoonup> cell)) list" where
  "example_sort xs =
     sort_key (\<lambda>p. case fst p of None \<Rightarrow> 0 | Some t \<Rightarrow> t) (filter (\<lambda>p. fst p \<noteq> None) xs)
       @ filter (\<lambda>p. fst p = None) xs"

definition example_library :: library where
  "example_library =
     \<lparr>to_datetime = (\<lambda>c. case c of IntCell t \<Rightarrow> Some t | _ \<Rightarrow> None),
      sort_values = example_sort,
      numeric_text = (\<lambda>s. None),
      float64 = of_int,
      int64_overflow = (\<lambda>x. - (2 ^ 63)),
      fit_predict = (\<lambda>xs. Inr (map (\<lambda>p. if fst p \<ge> 5000 then - 1 else 1) xs)),
      lookup = (\<lambda>url. Inl Timeout),
      float_of = (\<lambda>s. None)\<rparr>"

definition example_row :: "int \<Rightarrow> string \<Rightarrow> cell \<Rightarrow> cell \<Rightarrow> (string \<rightharpoonup> cell)" where
  "example_row t ip b f =
     [''timestamp'' \<mapsto> IntCell t, ''source_ip'' \<mapsto> TextCell ip,
      ''dest_ip'' \<mapsto> TextCell ''10.0.0.100'', ''bytes_sent'' \<mapsto> b, ''failed_logins'' \<mapsto> f]"

definition example_frame :: "(string \<rightharpoonup> cell) list \<Rightarrow> frame" where
  "example_frame rs = \<lparr>columns = required_cols @ [''note''], rows = rs\<rparr>"

definition example_alert :: "int \<Rightarrow> int \<Rightarrow> int \<Rightarrow> real \<Rightarrow> real \<Rightarrow> alert" where
  "example_alert t b f la lo =
     \<lparr>timestamp = Some t, source_ip = TextCell ''8.8.8.8'', dest_ip = TextCell ''10.0.0.100'',
      bytes_sent = b, failed_logins = f, score = - 1,
      severity = classify_severity b f, lat = la, lon = lo\<rparr>"

section \<open>Properties\<close>

subsection \<open>The classifier\<close>

lemma classify_severity_High:
  "classify_severity b f = High \<longleftrightarrow> f > 20 \<and> b > 5000"
  by (simp add: classify_severity_def)

lemma classify_severity_Medium:
  "classify_severity b f = Medium \<longleftrightarrow> \<not> (f > 20 \<and> b > 5000) \<and> (f > 5 \<or> b > 3000)"
  by (simp add: classify_severity_def)

lemma classify_severity_Low:
  "classify_severity b f = Low \<longleftrightarrow> \<not> (f > 20 \<and> b > 5000) \<and> \<not> (f > 5 \<or> b > 3000)"
  by (simp add: classify_severity_def)

text \<open>
  The older classifier of \<^verbatim>\<open>Kratos 8\<close> is a different function: one large transfer
  with no failed login is \<open>High\<close> there and \<open>Medium\<close> in the later scripts.
\<close>

lemma classify_differs:
  "classify 7001 0 = High \<and> classify_severity 7001 0 = Medium"
  by (simp add: classify_def classify_severity_def)

subsection \<open>The stages of the pipeline\<close>

lemma collect_Inr: "collect rs = Inr vs \<Longrightarrow> rs = map Inr vs"
  by (induction rs arbitrary: vs) (auto split: sum.splits)

lemma detect_anomalies_flagged:
  assumes "detect_anomalies lib logs = Inr flagged" and "p \<in> set flagged"
  shows "fst p \<in> set logs \<and> snd p = - 1"
proof -
  from assms(1) obtain labels where
    "flagged = filter (\<lambda>(e, l). l = - 1) (zip logs labels)"
    by (auto simp: detect_anomalies_def split: sum.splits)
  with assms(2) have "p \<in> set (zip logs labels)" and "snd p = - 1"
    by (auto simp: case_prod_beta)
  then show ?thesis
    by (metis prod.collapse set_zip_leftD)
qed

lemma make_alert_fields:
  "make_alert lib p = Inr a \<Longrightarrow>
     score a = snd p \<and> severity a = classify_severity (bytes_sent a) (failed_logins a)
     \<and> bytes_sent a = bytes_sent (fst p) \<and> failed_logins a = failed_logins (fst p)
     \<and> timestamp a = timestamp (fst p) \<and> source_ip a = source_ip (fst p)"
  by (auto simp: make_alert_def Let_def split: sum.splits)

lemma pipeline_Inr:
  assumes "pipeline lib raw = Inr alerts"
  obtains logs flagged where "validate raw = Inr raw" "normalize lib raw = Inr logs"
    "detect_anomalies lib logs = Inr flagged" "map (make_alert lib) flagged = map Inr alerts"
proof -
  from assms obtain checked logs flagged where
    v: "validate raw = Inr checked" and n: "normalize lib checked = Inr logs"
    and d: "detect_anomalies lib logs = Inr flagged"
    and c: "collect (map (make_alert lib) flagged) = Inr alerts"
    by (auto simp: pipeline_def split: sum.splits if_splits)
  from v have "checked = raw" by (auto simp: validate_def split: if_splits)
  with v n d collect_Inr[OF c] that show thesis by simp
qed

lemma pipeline_alert:
  assumes "pipeline lib raw = Inr alerts" "a \<in> set alerts"
  shows "score a = - 1 \<and> severity a = classify_severity (bytes_sent a) (failed_logins a)"
proof -
  from assms(1) obtain logs flagged where
    d: "detect_anomalies lib logs = Inr flagged"
    and m: "map (make_alert lib) flagged = map Inr alerts"
    by (rule pipeline_Inr)
  from assms(2) have "Inr a \<in> set (map (make_alert lib) flagged)"
    by (simp add: m)
  then obtain p where p: "p \<in> set flagged" "make_alert lib p = Inr a"
    by auto
  from detect_anomalies_flagged[OF d p(1)] make_alert_fields[OF p(2)]
  show ?thesis by simp
qed

text \<open>
  The scorer stage adds nothing to the library's answer: the alerts are the rows it
  labels \<open>-1\<close>, whatever the number of rows, and its exception is not caught.
\<close>

lemma detect_anomalies_labels:
  "fit_predict lib (map (\<lambda>e. (bytes_sent e, failed_logins e)) logs) = Inr labels \<Longrightarrow>
     detect_anomalies lib logs = Inr (filter (\<lambda>(e, l). l = - 1) (zip logs labels))"
  by (simp add: detect_anomalies_def)

lemma detect_anomalies_raises:
  "fit_predict lib (map (\<lambda>e. (bytes_sent e, failed_logins e)) logs) = Inl x \<Longrightarrow>
     detect_anomalies lib logs = Inl x"
  by (simp add: detect_anomalies_def)

text \<open>
  A batch without rows never reaches the scorer, and no run ends with an empty list of
  alerts: when no row is flagged, the run ends with the \<^verbatim>\<open>ValueError\<close> of the unpacking.
\<close>

lemma pipeline_empty_batch:
  "rows logs = [] \<Longrightarrow> pipeline lib logs = Inl SchemaError
     \<or> pipeline lib logs = Inl UnparseableTimestampError"
  by (simp add: pipeline_def validate_def normalize_def parse_timestamps_def)



text \<open>A run on one row, evaluated.\<close>

lemmas example_defs = pipeline_def validate_def example_frame_def required_cols_def normalize_def
      parse_timestamps_def make_event_def example_row_def cell_of_def example_library_def
      example_sort_def normalize_column_def int64_column_def int64_def to_numeric_def
      to_float64_def fillna_def astype_int_def
      detect_anomalies_def make_alert_def real_geolocate_def geolocate_try_def startswith_def
      STATIC_IP_MAP_def example_alert_def

lemma example_run:
  "pipeline example_library (example_frame [example_row 0 ''8.8.8.8'' (IntCell 6000) (IntCell 15)])
     = Inr [example_alert 0 6000 15 37.3861 (- 122.0839)]"
  by (simp add: example_defs)

subsection \<open>A batch of one row\<close>


subsection \<open>Severity of the injected range\<close>

text \<open>
  C1 (as amended).  A row that the scorer flags becomes an alert with score \<open>-1\<close>; when
  its \<open>bytes_sent\<close> is in \<open>[5000, 10000]\<close> and its \<open>failed_logins\<close> in \<open>[10, 50]\<close>, its
  severity is \<open>High\<close> if \<open>failed_logins > 20\<close> and \<open>bytes_sent > 5000\<close>, and \<open>Medium\<close>
  otherwise (never \<open>Low\<close>).
\<close>

theorem C1_injected_range_severity:
  assumes "pipeline lib raw = Inr alerts" and "a \<in> set alerts"
    and "5000 \<le> bytes_sent a" and "bytes_sent a \<le> 10000"
    and "10 \<le> failed_logins a" and "failed_logins a \<le> 50"
  shows "score a = - 1 \<and>
         severity a = (if failed_logins a > 20 \<and> bytes_sent a > 5000 then High else Medium)"
  using pipeline_alert[OF assms(1,2)] assms(3-)
  by (simp add: classify_severity_def)

text \<open>
  C1 as stated fails: a flagged row of 6000 bytes and 15 failed logins is in the range
  and is classified \<open>Medium\<close>.
\<close>

theorem C1_counterexample:
  "pipeline example_library (example_frame [example_row 0 ''8.8.8.8'' (IntCell 6000) (IntCell 15)])
     = Inr [example_alert 0 6000 15 37.3861 (- 122.0839)]
   \<and> 5000 \<le> bytes_sent (example_alert 0 6000 15 37.3861 (- 122.0839))
   \<and> bytes_sent (example_alert 0 6000 15 37.3861 (- 122.0839)) \<le> 10000
   \<and> 10 \<le> failed_logins (example_alert 0 6000 15 37.3861 (- 122.0839))
   \<and> failed_logins (example_alert 0 6000 15 37.3861 (- 122.0839)) \<le> 50
   \<and> score (example_alert 0 6000 15 37.3861 (- 122.0839)) = - 1
   \<and> severity (example_alert 0 6000 15 37.3861 (- 122.0839)) = Medium"
  by (simp add: example_run) (simp add: example_alert_def classify_severity_def)

theorem C1_witness:
  "score (example_alert 3 9000 30 37.3861 (- 122.0839)) = - 1
   \<and> severity (example_alert 3 9000 30 37.3861 (- 122.0839)) = High"
proof -
  have run: "pipeline example_library
      (example_frame [example_row 3 ''8.8.8.8'' (IntCell 9000) (IntCell 30)])
     = Inr [example_alert 3 9000 30 37.3861 (- 122.0839)]"
    by (simp add: example_defs)
  have "example_alert 3 9000 30 37.3861 (- 122.0839) \<in> set [example_alert 3 9000 30 37.3861 (- 122.0839)]"
    by simp
  from C1_injected_range_severity[OF run this] show ?thesis
    by (simp add: example_alert_def)
qed

subsection \<open>The classifier as a table\<close>

text \<open>
  C2.  \<^verbatim>\<open>classify_severity\<close> is a total function of the pair
  \<open>(bytes_sent, failed_logins)\<close>: it is \<open>High\<close> exactly when \<open>failed_logins > 20\<close> and
  \<open>bytes_sent > 5000\<close>, otherwise \<open>Medium\<close> exactly when \<open>failed_logins > 5\<close> or
  \<open>bytes_sent > 3000\<close>, otherwise \<open>Low\<close> (for all integers, the negative ones included).
  The pipeline gives every alert the classifier's value of its own pair, so two alerts
  with the same pair have the same severity, whatever batches and libraries they come
  from.
\<close>

theorem C2_classifier_table:
  "(classify_severity b f = High \<longleftrightarrow> f > 20 \<and> b > 5000)
   \<and> (classify_severity b f = Medium \<longleftrightarrow> \<not> (f > 20 \<and> b > 5000) \<and> (f > 5 \<or> b > 3000))
   \<and> (classify_severity b f = Low \<longleftrightarrow> \<not> (f > 20 \<and> b > 5000) \<and> \<not> (f > 5 \<or> b > 3000))
   \<and> (pipeline lib raw = Inr alerts \<and> a \<in> set alerts
        \<and> pipeline lib' raw' = Inr alerts' \<and> a' \<in> set alerts'
        \<and> bytes_sent a = bytes_sent a' \<and> failed_logins a = failed_logins a'
        \<longrightarrow> severity a = classify_severity (bytes_sent a) (failed_logins a)
            \<and> severity a = severity a')"
proof -
  have "severity a = classify_severity (bytes_sent a) (failed_logins a) \<and> severity a = severity a'"
    if "pipeline lib raw = Inr alerts" "a \<in> set alerts"
      "pipeline lib' raw' = Inr alerts'" "a' \<in> set alerts'"
      "bytes_sent a = bytes_sent a'" "failed_logins a = failed_logins a'"
    using pipeline_alert[OF that(1,2)] pipeline_alert[OF that(3,4)] that(5,6) by simp
  then have batch: "pipeline lib raw = Inr alerts \<and> a \<in> set alerts
        \<and> pipeline lib' raw' = Inr alerts' \<and> a' \<in> set alerts'
        \<and> bytes_sent a = bytes_sent a' \<and> failed_logins a = failed_logins a'
        \<longrightarrow> severity a = classify_severity (bytes_sent a) (failed_logins a)
            \<and> severity a = severity a'"
    by blast
  show ?thesis
    by (intro conjI classify_severity_High classify_severity_Medium classify_severity_Low batch)
qed

text \<open>A second run: two rows, of which the scorer flags the second.\<close>

lemma example_run2:
  "pipeline example_library
     (example_frame [example_row 0 ''8.8.8.8'' (IntCell 100) (IntCell 1),
                     example_row 7 ''8.8.8.8'' (IntCell 6000) (IntCell 15)])
     = Inr [example_alert 7 6000 15 37.3861 (- 122.0839)]"
  by (simp add: example_defs)

theorem C2_witness:
  "classify_severity 9000 30 = High \<and> classify_severity 6000 15 = Medium
   \<and> classify_severity 100 1 = Low
   \<and> severity (example_alert 0 6000 15 37.3861 (- 122.0839))
       = severity (example_alert 7 6000 15 37.3861 (- 122.0839))"
proof -
  let ?r = "example_frame [example_row 0 ''8.8.8.8'' (IntCell 6000) (IntCell 15)]"
  let ?r' = "example_frame [example_row 0 ''8.8.8.8'' (IntCell 100) (IntCell 1),
                            example_row 7 ''8.8.8.8'' (IntCell 6000) (IntCell 15)]"
  let ?a = "example_alert 0 6000 15 37.3861 (- 122.0839)"
  let ?a' = "example_alert 7 6000 15 37.3861 (- 122.0839)"
  have table: "classify_severity 9000 30 = High" "classify_severity 6000 15 = Medium"
    "classify_severity 100 1 = Low"
    using C2_classifier_table[of 9000 30] C2_classifier_table[of 6000 15]
      C2_classifier_table[of 100 1]
    by simp_all
  have runs: "pipeline example_library ?r = Inr [?a] \<and> ?a \<in> set [?a]
      \<and> pipeline example_library ?r' = Inr [?a'] \<and> ?a' \<in> set [?a']
      \<and> bytes_sent ?a = bytes_sent ?a' \<and> failed_logins ?a = failed_logins ?a'"
    by (simp add: example_run example_run2) (simp add: example_alert_def)
  have "severity ?a = severity ?a'"
    using C2_classifier_table[where lib = example_library and raw = ?r and alerts = "[?a]"
        and a = ?a and lib' = example_library and raw' = ?r' and alerts' = "[?a']" and a' = ?a']
      runs
    by blast
  with table show ?thesis by simp
qed

subsection \<open>Monotonicity of the classifier\<close>

text \<open>
  C10.  The classifier is monotone in both arguments for the order
  \<open>Low < Medium < High\<close>: raising \<open>bytes_sent\<close> or \<open>failed_logins\<close> never lowers the
  severity.
\<close>

theorem C10_classifier_monotone:
  "b1 \<le> b2 \<Longrightarrow> f1 \<le> f2 \<Longrightarrow>
     severity_rank (classify_severity b1 f1) \<le> severity_rank (classify_severity b2 f2)"
  by (simp add: classify_severity_def)

theorem C10_witness:
  "severity_rank (classify_severity 100 1) \<le> severity_rank (classify_severity 4000 1)
   \<and> severity_rank (classify_severity 4000 1) \<le> severity_rank (classify_severity 6000 25)"
  using C10_classifier_monotone[of 100 4000 1 1] C10_classifier_monotone[of 4000 6000 1 25]
  by simp

subsection \<open>Normalised numbers\<close>















subsection \<open>Validation\<close>

lemma pipeline_SchemaError:
  "pipeline lib logs = Inl SchemaError \<longleftrightarrow> validate logs = Inl SchemaError"
  by (auto simp: pipeline_def validate_def normalize_def Let_def split: sum.splits if_splits)

text \<open>
  C8.  Validation fails, with \<open>SchemaError\<close> and nothing else, if and only if one of
  the five required columns is absent; then the whole run ends with \<open>SchemaError\<close>
  whatever the library would do, so nothing is scored, classified or geolocated.  When
  the five are present the batch comes back as it is, extra columns included, and the
  run does not end with \<open>SchemaError\<close>.  (The columns the spec calls \<^verbatim>\<open>source_id\<close> and
  \<^verbatim>\<open>dest_id\<close> are \<^verbatim>\<open>source_ip\<close> and \<^verbatim>\<open>dest_ip\<close> in the scripts.)
\<close>

theorem C8_validate_required_columns:
  "set required_cols = {''timestamp'', ''source_ip'', ''dest_ip'', ''bytes_sent'', ''failed_logins''}
   \<and> (validate logs = Inl SchemaError \<longleftrightarrow> (\<exists>c \<in> set required_cols. c \<notin> set (columns logs)))
   \<and> (\<forall>s. validate logs = Inl s \<longrightarrow> s = SchemaError)
   \<and> ((\<exists>c \<in> set required_cols. c \<notin> set (columns logs)) \<longrightarrow> pipeline lib logs = Inl SchemaError)
   \<and> ((\<forall>c \<in> set required_cols. c \<in> set (columns logs)) \<longrightarrow>
         validate logs = Inr logs \<and> pipeline lib logs \<noteq> Inl SchemaError)"
proof -
  have v: "validate logs = Inl SchemaError \<longleftrightarrow> (\<exists>c \<in> set required_cols. c \<notin> set (columns logs))"
    by (auto simp: validate_def)
  have r: "(\<forall>c \<in> set required_cols. c \<in> set (columns logs)) \<longrightarrow> validate logs = Inr logs"
    by (auto simp: validate_def)
  have s: "\<forall>s. validate logs = Inl s \<longrightarrow> s = SchemaError"
    by (auto simp: validate_def split: if_splits)
  have c: "set required_cols = {''timestamp'', ''source_ip'', ''dest_ip'', ''bytes_sent'', ''failed_logins''}"
    by (simp add: required_cols_def)
  from v r s c pipeline_SchemaError[of lib logs] show ?thesis
    by (metis Inl_Inr_False)
qed

theorem C8_witness:
  "validate \<lparr>columns = [''timestamp'', ''source_ip'', ''bytes_sent'', ''failed_logins''], rows = []\<rparr>
     = Inl SchemaError
   \<and> pipeline example_library
       \<lparr>columns = [''timestamp'', ''source_ip'', ''bytes_sent'', ''failed_logins''], rows = []\<rparr>
     = Inl SchemaError
   \<and> validate (example_frame [example_row 0 ''8.8.8.8'' (IntCell 6000) (IntCell 15)])
     = Inr (example_frame [example_row 0 ''8.8.8.8'' (IntCell 6000) (IntCell 15)])"
proof -
  let ?bad = "\<lparr>columns = [''timestamp'', ''source_ip'', ''bytes_sent'', ''failed_logins''], rows = []\<rparr>"
  let ?good = "example_frame [example_row 0 ''8.8.8.8'' (IntCell 6000) (IntCell 15)]"
  have absent: "\<exists>c \<in> set required_cols. c \<notin> set (columns ?bad)"
    by (simp add: required_cols_def)
  have present: "\<forall>c \<in> set required_cols. c \<in> set (columns ?good)"
    by (simp add: required_cols_def example_frame_def)
  from absent C8_validate_required_columns[of ?bad example_library]
  have "validate ?bad = Inl SchemaError" "pipeline example_library ?bad = Inl SchemaError"
    by blast+
  moreover from present C8_validate_required_columns[of ?good example_library]
  have "validate ?good = Inr ?good"
    by blast
  ultimately show ?thesis by simp
qed

subsection \<open>The visible window\<close>

lemma in_window_iff:
  "(case timestamp a of None \<Rightarrow> False | Some t \<Rightarrow> t \<ge> lo \<and> t < hi)
     \<longleftrightarrow> (\<exists>t. timestamp a = Some t \<and> lo \<le> t \<and> t < hi)"
  by (cases "timestamp a") auto

lemma current_end_next: "current_end t_min pos = current_start t_min (pos + 1)"
  by (simp add: current_end_def current_start_def algebra_simps)

text \<open>
  C4.  At every position the visible alerts are exactly the alerts with a timestamp
  \<open>t\<close> such that \<open>current_start \<le> t < current_end\<close>, in their order; the window is
  one hour long and ends where the window of the next position starts, so an alert whose
  timestamp is \<open>current_end\<close> is not visible at this position and is visible at the
  next one.
\<close>

theorem C4_window_half_open:
  "visible_alerts t_min pos alerts
     = filter (\<lambda>a. \<exists>t. timestamp a = Some t
                        \<and> current_start t_min pos \<le> t \<and> t < current_end t_min pos) alerts
   \<and> current_start t_min pos < current_end t_min pos
   \<and> current_end t_min pos = current_start t_min (pos + 1)
   \<and> (a \<in> set alerts \<and> timestamp a = Some (current_end t_min pos) \<longrightarrow>
        a \<notin> set (visible_alerts t_min pos alerts)
        \<and> a \<in> set (visible_alerts t_min (pos + 1) alerts))"
proof (intro conjI impI)
  show "visible_alerts t_min pos alerts
     = filter (\<lambda>a. \<exists>t. timestamp a = Some t
                        \<and> current_start t_min pos \<le> t \<and> t < current_end t_min pos) alerts"
    by (simp add: visible_alerts_def in_window_iff)
  show "current_start t_min pos < current_end t_min pos"
    by (simp add: current_end_def hour_def)
  show "current_end t_min pos = current_start t_min (pos + 1)"
    by (rule current_end_next)
next
  assume a: "a \<in> set alerts \<and> timestamp a = Some (current_end t_min pos)"
  then show "a \<notin> set (visible_alerts t_min pos alerts)"
    by (simp add: visible_alerts_def)
  have "current_start t_min (pos + 1) < current_end t_min (pos + 1)"
    by (simp add: current_end_def hour_def)
  with a show "a \<in> set (visible_alerts t_min (pos + 1) alerts)"
    by (simp add: visible_alerts_def current_end_next)
qed

theorem C4_witness:
  "visible_alerts 0 0 [example_alert 0 100 1 0 0, example_alert 3600000000000 100 1 0 0]
     = [example_alert 0 100 1 0 0]
   \<and> visible_alerts 0 1 [example_alert 0 100 1 0 0, example_alert 3600000000000 100 1 0 0]
     = [example_alert 3600000000000 100 1 0 0]"
proof -
  let ?a = "example_alert 0 100 1 0 0" and ?b = "example_alert 3600000000000 100 1 0 0"
  have e: "current_end 0 0 = 3600000000000" "current_start 0 0 = 0"
    "current_end 0 1 = 7200000000000"
    by (simp_all add: current_end_def current_start_def hour_def)
  have ts: "timestamp ?a = Some 0" "timestamp ?b = Some 3600000000000"
    by (simp_all add: example_alert_def)
  from C4_window_half_open[of 0 0 "[?a, ?b]"] have
    "visible_alerts 0 0 [?a, ?b] = filter (\<lambda>a. \<exists>t. timestamp a = Some t
                        \<and> current_start 0 0 \<le> t \<and> t < current_end 0 0) [?a, ?b]"
    by blast
  then have 0: "visible_alerts 0 0 [?a, ?b] = [?a]"
    by (simp add: e ts)
  from C4_window_half_open[of 0 1 "[?a, ?b]"] have
    "visible_alerts 0 1 [?a, ?b] = filter (\<lambda>a. \<exists>t. timestamp a = Some t
                        \<and> current_start 0 1 \<le> t \<and> t < current_end 0 1) [?a, ?b]"
    by blast
  then have 1: "visible_alerts 0 1 [?a, ?b] = [?b]"
    by (simp add: e ts current_end_next[of 0 0, simplified, symmetric])
  from 0 1 show ?thesis by simp
qed

text \<open>
  The cumulative view of \<^verbatim>\<open>Kratos16_app.py\<close> is another query: it has no lower bound and
  it shows the alert whose timestamp is the cutoff.
\<close>

lemma filtered_alerts_closed:
  "a \<in> set alerts \<Longrightarrow> timestamp a = Some current_cutoff \<Longrightarrow>
     a \<in> set (filtered_alerts current_cutoff alerts)"
  by (simp add: filtered_alerts_def)

subsection \<open>The playback position\<close>

text \<open>The number of hours of a timeline is never negative.\<close>

lemma fold_min_le: "fold min ts (t::int) \<le> t"
proof (induction ts arbitrary: t)
  case Nil
  then show ?case by simp
next
  case (Cons a ts)
  have "fold min ts (min a t) \<le> min a t" by (rule Cons.IH)
  then show ?case by simp
qed

lemma fold_max_ge: "(t::int) \<le> fold max ts t"
proof (induction ts arbitrary: t)
  case Nil
  then show ?case by simp
next
  case (Cons a ts)
  have "max a t \<le> fold max ts (max a t)" by (rule Cons.IH)
  then show ?case by simp
qed

lemma floor_hour_le: "floor_hour t \<le> t"
  by (simp add: floor_hour_def hour_def)

lemma ceil_hour_ge: "t \<le> ceil_hour t"
  by (simp add: ceil_hour_def hour_def)

lemma total_hours_nonneg:
  assumes "timeline logs = Some (t_min, t_max)"
  shows "0 \<le> total_hours t_min t_max"
proof -
  from assms obtain t ts where
    "t_min = floor_hour (fold min ts t)" "t_max = ceil_hour (fold max ts t)"
    by (auto simp: timeline_def split: list.splits)
  with floor_hour_le[of "fold min ts t"] fold_min_le[of ts t] fold_max_ge[of t ts]
    ceil_hour_ge[of "fold max ts t"]
  have "t_min \<le> t_max" by linarith
  then show ?thesis
    by (simp add: total_hours_def hour_def pos_imp_zdiv_nonneg_iff)
qed

lemma slider_range: "lo \<le> hi \<Longrightarrow> lo \<le> slider lo hi v \<and> slider lo hi v \<le> hi"
  by (simp add: slider_def)

lemma navigate_range:
  "0 \<le> n \<Longrightarrow> 0 \<le> p \<Longrightarrow> p \<le> n \<Longrightarrow> 0 \<le> navigate n p x \<and> navigate n p x \<le> n"
  by (cases x) (auto simp: advance_def scrub_def reset_def slider_def Let_def)

lemma play_navigate_range:
  "0 \<le> n \<Longrightarrow> 0 \<le> k \<Longrightarrow> 0 \<le> p \<Longrightarrow> p \<le> n \<Longrightarrow>
     0 \<le> play_navigate k n p x \<and> play_navigate k n p x \<le> n"
  by (cases x) (auto simp: play_advance_def play_scrub_def reset_def slider_def Let_def)

lemma foldl_navigate_range:
  "0 \<le> n \<Longrightarrow> 0 \<le> p \<Longrightarrow> p \<le> n \<Longrightarrow>
     0 \<le> foldl (navigate n) p xs \<and> foldl (navigate n) p xs \<le> n"
proof (induction xs arbitrary: p)
  case Nil
  then show ?case by simp
next
  case (Cons x xs)
  from navigate_range[OF Cons.prems] Cons.IH[OF Cons.prems(1)] show ?case
    by simp
qed

lemma foldl_play_navigate_range:
  "0 \<le> n \<Longrightarrow> 0 \<le> k \<Longrightarrow> 0 \<le> p \<Longrightarrow> p \<le> n \<Longrightarrow>
     0 \<le> foldl (play_navigate k n) p xs \<and> foldl (play_navigate k n) p xs \<le> n"
proof (induction xs arbitrary: p)
  case Nil
  then show ?case by simp
next
  case (Cons x xs)
  from play_navigate_range[OF Cons.prems] Cons.IH[OF Cons.prems(1,2)] show ?case
    by simp
qed

text \<open>
  C5.  From position 0, after any finite sequence of advances, scrubs to any requested
  position and resets, the position is between 0 and \<open>total_ticks\<close>; an advance at
  \<open>total_ticks\<close> leaves the position there, and a reset gives 0 from any position.  This
  holds for the hour position of \<^verbatim>\<open>Kratos20\<close>/\<^verbatim>\<open>Kratos27\<close> and, for every step that is
  not negative, for the minute position of \<^verbatim>\<open>Kratos16\<close>.
\<close>

theorem C5_position_in_range:
  assumes "0 \<le> total_ticks" and "0 \<le> step"
  shows "0 \<le> playback total_ticks ops \<and> playback total_ticks ops \<le> total_ticks
    \<and> navigate total_ticks total_ticks Advance = total_ticks
    \<and> navigate total_ticks pos Reset = 0
    \<and> 0 \<le> play_playback step total_ticks ops \<and> play_playback step total_ticks ops \<le> total_ticks
    \<and> play_navigate step total_ticks total_ticks Advance = total_ticks
    \<and> play_navigate step total_ticks pos Reset = 0"
  using foldl_navigate_range[OF assms(1) order_refl assms(1), of ops]
    foldl_play_navigate_range[OF assms(1,2) order_refl assms(1), of ops] assms
  by (simp add: playback_def play_playback_def advance_def reset_def play_advance_def)

theorem C5_witness:
  "playback 3 [Advance, Advance, Advance, Advance, Advance] = 3
   \<and> playback 3 [Scrub 7] = 3 \<and> playback 3 [Scrub (- 2)] = 0
   \<and> playback 3 [Advance, Scrub 2, Reset] = 0
   \<and> 0 \<le> playback 3 [Advance, Scrub 7, Advance] \<and> playback 3 [Advance, Scrub 7, Advance] \<le> 3
   \<and> play_playback 5 12 [Advance, Advance, Advance] = 12"
proof -
  have "(0::int) \<le> 3" "(0::int) \<le> 5" "(0::int) \<le> 12" by simp_all
  from C5_position_in_range[OF this(1,2), of "[Advance, Scrub 7, Advance]"]
  have "0 \<le> playback 3 [Advance, Scrub 7, Advance] \<and> playback 3 [Advance, Scrub 7, Advance] \<le> 3"
    by simp
  then show ?thesis
    by (simp add: playback_def play_playback_def advance_def scrub_def slider_def
        reset_def play_advance_def)
qed

subsection \<open>Geolocation\<close>







text \<open>
  The table lookup of \<^verbatim>\<open>Kratos20_app.py\<close> knows no private range: it gives the
  demonstration coordinates of its table.
\<close>

lemma simple_geolocate_private:
  "simple_geolocate (TextCell ''10.0.0.1'') = (38.0, - 97.0)"
  by (simp add: simple_geolocate_def geo_map_demo_def)

subsection \<open>Markers and heat points\<close>

lemma markers_located: "(0, 0) \<notin> set (markers visible)"
  by (auto simp: markers_def)

lemma heat_points_valid_located: "(0, 0) \<notin> set (heat_points_valid visible)"
  by (auto simp: heat_points_valid_def)

lemma heat_points_all:
  "r \<in> set visible \<Longrightarrow> (lat r, lon r) \<in> set (heat_points visible)"
  by (auto simp: heat_points_def)

text \<open>
  C7.  The marker loop leaves out the alerts at \<open>(0, 0)\<close>, and so does the heat map of
  \<^verbatim>\<open>Kratos27_app.py\<close>; the heat map of \<^verbatim>\<open>Kratos28_app.py\<close> does not.  A visible alert
  whose coordinates are the sentinel has no marker there, and yet its \<open>(0, 0)\<close> is among
  the heat points.
\<close>

theorem C7_heat_points_sentinel:
  "lat (example_alert 0 6000 15 0 0) = 0 \<and> lon (example_alert 0 6000 15 0 0) = 0
   \<and> visible_alerts 0 0 [example_alert 0 6000 15 0 0] = [example_alert 0 6000 15 0 0]
   \<and> markers [example_alert 0 6000 15 0 0] = []
   \<and> heat_points [example_alert 0 6000 15 0 0] = [(0, 0)]
   \<and> heat_points_valid [example_alert 0 6000 15 0 0] = []"
  by (simp add: markers_def heat_points_def heat_points_valid_def visible_alerts_def
      current_start_def current_end_def hour_def example_alert_def)

end
